theory Spec2Isabelle
  imports Complex_Main
begin

section \<open>JavaScript numbers\<close>

text \<open>
  A JavaScript number is a finite double, one of the two infinities, or NaN. A finite
  double is represented by the real number it denotes (the two zeros by \<open>0\<close>), and
  arithmetic on finite values is exact: rounding to 53 bits and overflow to an infinity
  are not part of this model. Every concrete input used below is a dyadic rational or
  gives the same result under either reading.
\<close>

datatype number = Fin real | PosInfinity | NegInfinity | NaN

text \<open>Truncation towards zero, and the remainder \<open>x % c\<close>, which takes the sign of \<open>x\<close>.\<close>

definition trunc :: "real \<Rightarrow> int" where
  "trunc x = (if 0 \<le> x then \<lfloor>x\<rfloor> else - \<lfloor>- x\<rfloor>)"

definition frem :: "real \<Rightarrow> real \<Rightarrow> real" where
  "frem x c = x - c * of_int (trunc (x / c))"

text \<open>
  The operators \<open>n / c\<close>, \<open>n % c\<close> and \<open>n * c\<close> for a positive finite literal \<open>c\<close>,
  which is the only way the source uses them.
\<close>

fun divide_by :: "number \<Rightarrow> real \<Rightarrow> number" where
  "divide_by (Fin x) c = Fin (x / c)"
| "divide_by n c = n"

fun remainder_by :: "number \<Rightarrow> real \<Rightarrow> number" where
  "remainder_by (Fin x) c = Fin (frem x c)"
| "remainder_by n c = NaN"

fun times_by :: "number \<Rightarrow> real \<Rightarrow> number" where
  "times_by (Fin x) c = Fin (x * c)"
| "times_by n c = n"

text \<open>The operator \<open>a + b\<close> on two numbers.\<close>

fun add :: "number \<Rightarrow> number \<Rightarrow> number" where
  "add NaN b = NaN"
| "add a NaN = NaN"
| "add PosInfinity NegInfinity = NaN"
| "add NegInfinity PosInfinity = NaN"
| "add PosInfinity b = PosInfinity"
| "add a PosInfinity = PosInfinity"
| "add NegInfinity b = NegInfinity"
| "add a NegInfinity = NegInfinity"
| "add (Fin x) (Fin y) = Fin (x + y)"

fun Math_floor :: "number \<Rightarrow> number" where
  "Math_floor (Fin x) = Fin (of_int \<lfloor>x\<rfloor>)"
| "Math_floor n = n"

text \<open>Strict equality \<open>a === b\<close> on numbers: NaN equals nothing, itself included.\<close>

fun strict_equal :: "number \<Rightarrow> number \<Rightarrow> bool" where
  "strict_equal NaN b = False"
| "strict_equal a NaN = False"
| "strict_equal a b = (a = b)"

section \<open>JavaScript strings\<close>

definition newline :: string where
  "newline = [CHR 0x0A]"

definition digit_char :: "nat \<Rightarrow> char" where
  "digit_char n = ''0123456789'' ! n"

fun show_nat :: "nat \<Rightarrow> string" where
  "show_nat n =
     (if n < 10 then [digit_char n] else show_nat (n div 10) @ [digit_char (n mod 10)])"

declare show_nat.simps [simp del]

definition show_int :: "int \<Rightarrow> string" where
  "show_int i = (if i < 0 then ''-'' @ show_nat (nat (- i)) else show_nat (nat i))"

text \<open>
  \<open>Number.prototype.toString\<close>, which is also the conversion a template literal and
  a JSX child apply. An integral value below \<open>10^21\<close> in magnitude prints as its
  decimal digits. Every other finite value prints in a notation (fraction digits, or an
  exponent from \<open>10^21\<close> on) that depends on the double's shortest round-trip digits;
  that rendering is the parameter \<open>expo\<close> of the model.
\<close>

fun toString :: "(real \<Rightarrow> string) \<Rightarrow> number \<Rightarrow> string" where
  "toString expo NaN = ''NaN''"
| "toString expo PosInfinity = ''Infinity''"
| "toString expo NegInfinity = ''-Infinity''"
| "toString expo (Fin x) =
     (if of_int \<lfloor>x\<rfloor> = x \<and> \<bar>x\<bar> < 10 ^ 21 then show_int \<lfloor>x\<rfloor> else expo x)"

text \<open>
  \<open>n.toFixed(0)\<close>: the sign, then the integer nearest to the magnitude, the larger one
  on a tie; from \<open>10^21\<close> on, and for a value that is not finite, the result of
  \<open>toString\<close>.
\<close>

fun toFixed0 :: "(real \<Rightarrow> string) \<Rightarrow> number \<Rightarrow> string" where
  "toFixed0 expo (Fin x) =
     (if x < 0
      then ''-'' @ (if 10 ^ 21 \<le> - x then toString expo (Fin (- x))
                   else show_nat (nat \<lfloor>- x + 1 / 2\<rfloor>))
      else (if 10 ^ 21 \<le> x then toString expo (Fin x)
            else show_nat (nat \<lfloor>x + 1 / 2\<rfloor>)))"
| "toFixed0 expo n = toString expo n"

text \<open>\<open>s.padStart(n, fill)\<close> and \<open>xs.join(sep)\<close> on an array of strings.\<close>

definition padStart :: "nat \<Rightarrow> string \<Rightarrow> string \<Rightarrow> string" where
  "padStart n fill s =
     (if n \<le> length s \<or> fill = [] then s
      else take (n - length s) (concat (replicate (n - length s) fill)) @ s)"

fun join :: "string \<Rightarrow> string list \<Rightarrow> string" where
  "join sep [] = []"
| "join sep [x] = x"
| "join sep (x # y # ys) = x @ sep @ join sep (y # ys)"

section \<open>The transcript page: data\<close>

record TranscriptEntry =
  "text" :: string
  start :: number
  duration :: number

record TranscriptData =
  video_id :: string
  title :: "string option"
  transcript :: "TranscriptEntry list"

record SummaryData =
  summary :: "string option"
  error_field :: "string option"
  message :: "string option"

text \<open>
  The component's state: one field for each \<open>useState\<close> of \<open>TranscriptContent\<close>, and
  the values the hooks start from. (The field \<open>error\<close> of \<open>SummaryData\<close> is named
  \<open>error_field\<close> here, to keep \<open>error\<close> for the state.)
\<close>

record state =
  transcriptData :: "TranscriptData option"
  summaryData :: "SummaryData option"
  isLoading :: bool
  isSummaryLoading :: bool
  error :: "string option"
  activeTimestamp :: "number option"
  includeTimestamps :: bool
  summaryError :: "string option"

definition initial :: state where
  "initial =
     \<lparr> transcriptData = None, summaryData = None, isLoading = True,
       isSummaryLoading = False, error = None, activeTimestamp = None,
       includeTimestamps = True, summaryError = None \<rparr>"

section \<open>Timestamps and export\<close>

definition formatTime :: "(real \<Rightarrow> string) \<Rightarrow> number \<Rightarrow> string" where
  "formatTime expo seconds =
     (let hours = Math_floor (divide_by seconds 3600);
          minutes = Math_floor (divide_by (remainder_by seconds 3600) 60);
          secs = Math_floor (remainder_by seconds 60);
          ms = Math_floor (times_by (remainder_by seconds 1) 1000)
      in padStart 2 ''0'' (toString expo hours) @ '':'' @
         padStart 2 ''0'' (toString expo minutes) @ '':'' @
         padStart 2 ''0'' (toString expo secs) @ '','' @
         padStart 3 ''0'' (toString expo ms))"

text \<open>
  The label drawn beside each entry of the interactive transcript (the same expression
  in both versions of the page): \<open>Math.floor(entry.start / 60)\<close>, a colon, and
  \<open>(entry.start % 60).toFixed(0).padStart(2, "0")\<close>.
\<close>

definition timestamp_label :: "(real \<Rightarrow> string) \<Rightarrow> TranscriptEntry \<Rightarrow> string" where
  "timestamp_label expo entry =
     toString expo (Math_floor (divide_by (start entry) 60)) @ '':'' @
     padStart 2 ''0'' (toFixed0 expo (remainder_by (start entry) 60))"


datatype format = "txt" | srt

fun format_name :: "format \<Rightarrow> string" where
  "format_name txt = ''txt''"
| "format_name srt = ''srt''"

record download =
  filename :: string
  content :: string
  mime :: string

definition downloadAsFile :: "(real \<Rightarrow> string) \<Rightarrow> state \<Rightarrow> format \<Rightarrow> download option" where
  "downloadAsFile expo st fmt =
     (case transcriptData st of
        None \<Rightarrow> None
      | Some d \<Rightarrow>
          Some \<lparr> filename = ''transcript_'' @ video_id d @ ''.'' @ format_name fmt,
                 content =
                   (case fmt of
                      txt \<Rightarrow>
                        if includeTimestamps st
                        then join newline
                               (map (\<lambda>entry. ''['' @ formatTime expo (start entry) @ ''] '' @ text entry)
                                  (transcript d))
                        else join newline (map text (transcript d))
                    | srt \<Rightarrow>
                        join newline
                          (map (\<lambda>(index, entry).
                                  show_nat (index + 1) @ newline @
                                  formatTime expo (start entry) @ '' --> '' @
                                  formatTime expo (add (start entry) (duration entry)) @ newline @
                                  text entry @ newline)
                             (enumerate 0 (transcript d)))),
                 mime = ''text/plain'' \<rparr>)"

section \<open>Selecting an entry\<close>

text \<open>
  \<open>seekToTime\<close> stores the selected time and, when the page holds an iframe with a
  content window (\<open>player\<close>), posts the seek command to it. The result is the new state
  and the message posted, if any.
\<close>

record seek_command =
  event :: string
  func :: string
  args :: "number \<times> bool"

definition seekToTime :: "bool \<Rightarrow> state \<Rightarrow> number \<Rightarrow> state \<times> seek_command option" where
  "seekToTime player st seconds =
     (st\<lparr>activeTimestamp := Some seconds\<rparr>,
      if player
      then Some \<lparr> event = ''command'', func = ''seekTo'', args = (seconds, True) \<rparr>
      else None)"

text \<open>The \<open>onClick\<close> handler of an entry, and a sequence of clicks.\<close>

definition onClick :: "bool \<Rightarrow> state \<Rightarrow> TranscriptEntry \<Rightarrow> state" where
  "onClick player st entry = fst (seekToTime player st (start entry))"

fun clicks :: "bool \<Rightarrow> state \<Rightarrow> TranscriptEntry list \<Rightarrow> state" where
  "clicks player st [] = st"
| "clicks player st (entry # entries) = clicks player (onClick player st entry) entries"

text \<open>The render condition \<open>activeTimestamp === entry.start\<close> that highlights an entry.\<close>

definition is_active :: "state \<Rightarrow> TranscriptEntry \<Rightarrow> bool" where
  "is_active st entry =
     (case activeTimestamp st of
        None \<Rightarrow> False
      | Some t \<Rightarrow> strict_equal t (start entry))"

section \<open>Loading the page\<close>








section \<open>The proxy routes\<close>

datatype json =
  JNull | JBool bool | JNumber number | JString string
  | JArray "json list" | JObject "(string \<times> json) list"












section \<open>The specification's vocabulary\<close>

text \<open>
  The remainder the specification writes \<open>s mod m\<close>, and a number zero-padded to
  \<open>k\<close> digits: its decimal digits, preceded by zeros up to the width \<open>k\<close>.
\<close>

definition floor_mod :: "real \<Rightarrow> real \<Rightarrow> real" where
  "floor_mod s m = s - m * of_int \<lfloor>s / m\<rfloor>"

definition zero_padded :: "nat \<Rightarrow> nat \<Rightarrow> string" where
  "zero_padded k n = replicate (k - length (show_nat n)) CHR ''0'' @ show_nat n"






section \<open>Concrete inputs\<close>

text \<open>
  The concrete inputs below never print a number outside the plain decimal range, so they
  run with a rendering that is never consulted.
\<close>

definition no_expo :: "real \<Rightarrow> string" where
  "no_expo x = []"

definition entry_at :: "string \<Rightarrow> real \<Rightarrow> real \<Rightarrow> TranscriptEntry" where
  "entry_at t s d = \<lparr> text = t, start = Fin s, duration = Fin d \<rparr>"

definition loaded :: "TranscriptEntry list \<Rightarrow> state" where
  "loaded entries =
     (initial\<lparr>isLoading := False\<rparr>)
       \<lparr>transcriptData := Some \<lparr> video_id = ''v1'', title = None, transcript = entries \<rparr>\<rparr>"






section \<open>Arithmetic and strings: auxiliary facts\<close>

lemma frem_nonneg: "0 \<le> x \<Longrightarrow> 0 < c \<Longrightarrow> frem x c = floor_mod x c"
  by (simp add: frem_def trunc_def floor_mod_def)

lemma floor_mod_bounds:
  assumes "0 < c"
  shows "0 \<le> floor_mod x c" and "floor_mod x c < c"
proof -
  have "of_int \<lfloor>x / c\<rfloor> * c \<le> (x / c) * c"
    using assms by (intro mult_right_mono) simp_all
  then have "c * of_int \<lfloor>x / c\<rfloor> \<le> x"
    using assms by (simp add: mult.commute)
  then show "0 \<le> floor_mod x c"
    by (simp add: floor_mod_def)
  have "x / c < of_int \<lfloor>x / c\<rfloor> + 1"
    by linarith
  then have "(x / c) * c < (of_int \<lfloor>x / c\<rfloor> + 1) * c"
    using assms by (intro mult_strict_right_mono) simp_all
  then have "x < c * of_int \<lfloor>x / c\<rfloor> + c"
    using assms by (simp add: algebra_simps)
  then show "floor_mod x c < c"
    by (simp add: floor_mod_def)
qed


lemma concat_replicate_single: "concat (replicate m [c]) = replicate m c"
  by (induction m) simp_all

lemma padStart_zero: "padStart k ''0'' s = replicate (k - length s) CHR ''0'' @ s"
  by (simp add: padStart_def concat_replicate_single)

lemma padStart_show_nat: "padStart k ''0'' (show_nat n) = zero_padded k n"
  by (simp add: padStart_zero zero_padded_def)














lemma clicks_append:
  "clicks player st (xs @ ys) = clicks player (clicks player st xs) ys"
  by (induction xs arbitrary: st) simp_all

lemma strict_equal_eq: "strict_equal a b \<Longrightarrow> a = b"
  by (cases a; cases b) simp_all


section \<open>The subtitle timestamp\<close>



section \<open>Subtitle export\<close>



section \<open>Plain text export with timestamps\<close>




section \<open>Exporting an empty transcript\<close>

text \<open>
  Claim C4. With an empty entry sequence the export is the empty string in both formats,
  with or without timestamps; the download is still produced, and nothing fails.
\<close>

theorem empty_export:
  "downloadAsFile expo (st\<lparr>transcriptData := Some (d\<lparr>transcript := []\<rparr>)\<rparr>) fmt =
     Some \<lparr> filename = ''transcript_'' @ video_id d @ ''.'' @ format_name fmt,
            content = [], mime = ''text/plain'' \<rparr>"
  by (cases fmt) (simp_all add: downloadAsFile_def)

theorem empty_export_witness:
  "downloadAsFile no_expo (loaded []) txt =
     Some \<lparr> filename = ''transcript_v1.txt'', content = [], mime = ''text/plain'' \<rparr>
   \<and> downloadAsFile no_expo ((loaded [])\<lparr>includeTimestamps := False\<rparr>) txt =
     Some \<lparr> filename = ''transcript_v1.txt'', content = [], mime = ''text/plain'' \<rparr>
   \<and> downloadAsFile no_expo (loaded []) srt =
     Some \<lparr> filename = ''transcript_v1.srt'', content = [], mime = ''text/plain'' \<rparr>"
  using empty_export[where expo = no_expo and st = "initial\<lparr>isLoading := False\<rparr>"
      and d = "\<lparr> video_id = ''v1'', title = None, transcript = [] \<rparr>" and fmt = "txt"]
    empty_export[where expo = no_expo and st = "(loaded [])\<lparr>includeTimestamps := False\<rparr>"
      and d = "\<lparr> video_id = ''v1'', title = None, transcript = [] \<rparr>" and fmt = "txt"]
    empty_export[where expo = no_expo and st = "initial\<lparr>isLoading := False\<rparr>"
      and d = "\<lparr> video_id = ''v1'', title = None, transcript = [] \<rparr>" and fmt = "srt"]
  by (simp add: loaded_def initial_def)

section \<open>Starts that are NaN or negative\<close>




section \<open>Clipboard text and plain text export\<close>



section \<open>The label beside an entry\<close>

text \<open>
  Claim C10. For a finite \<open>start \<ge> 0\<close> the label is \<open>floor(start / 60)\<close>, a colon, and
  the remainder \<open>start mod 60\<close> rounded to the nearest integer and zero-padded to two
  digits. So a remainder of at least \<open>59.5\<close>, whose floor is 59, is shown as \<open>60\<close>, with
  no carry into the minutes: \<open>119.7\<close> is labelled \<open>1:60\<close> (the witness).
\<close>

theorem timestamp_label_rounds_seconds:
  assumes "start e = Fin s" and "0 \<le> s"
  shows "timestamp_label expo e =
           toString expo (Fin (of_int \<lfloor>s / 60\<rfloor>)) @ '':'' @
           zero_padded 2 (nat \<lfloor>floor_mod s 60 + 1 / 2\<rfloor>)
         \<and> (59.5 \<le> floor_mod s 60 \<longrightarrow>
              \<lfloor>floor_mod s 60\<rfloor> = 59 \<and>
              timestamp_label expo e = toString expo (Fin (of_int \<lfloor>s / 60\<rfloor>)) @ '':60'')"
proof -
  let ?r = "floor_mod s 60"
  have r: "0 \<le> ?r" "?r < 60"
    using floor_mod_bounds[of 60 s] by simp_all
  have "?r < 10 ^ 21"
    using r by simp
  then have fixed: "toFixed0 expo (Fin ?r) = show_nat (nat \<lfloor>?r + 1 / 2\<rfloor>)"
    using r by (simp del: toString.simps)
  have main: "timestamp_label expo e =
           toString expo (Fin (of_int \<lfloor>s / 60\<rfloor>)) @ '':'' @
           zero_padded 2 (nat \<lfloor>?r + 1 / 2\<rfloor>)"
    using assms
    by (simp add: timestamp_label_def frem_nonneg fixed padStart_show_nat del: toString.simps toFixed0.simps)
  have top: "\<lfloor>?r\<rfloor> = 59 \<and>
      timestamp_label expo e = toString expo (Fin (of_int \<lfloor>s / 60\<rfloor>)) @ '':60''"
    if "59.5 \<le> ?r"
  proof -
    have f: "\<lfloor>?r\<rfloor> = 59"
      using that r by linarith
    have "\<lfloor>?r + 1 / 2\<rfloor> = 60"
      using that r by linarith
    moreover have "zero_padded 2 60 = ''60''"
      by code_simp
    ultimately show ?thesis
      using main f by simp
  qed
  show ?thesis
    using main top by blast
qed

theorem timestamp_label_rounds_seconds_witness:
  "(0::real) \<le> 119.7 \<and> (59.5::real) \<le> floor_mod 119.7 60
   \<and> \<lfloor>floor_mod 119.7 60\<rfloor> = 59
   \<and> timestamp_label no_expo (entry_at ''a'' 119.7 1) = ''1:60''"
proof -
  have h: "start (entry_at ''a'' 119.7 1) = Fin 119.7" "(0::real) \<le> 119.7"
    by (simp_all add: entry_at_def)
  have g: "(59.5::real) \<le> floor_mod 119.7 60"
    by (simp add: floor_mod_def)
  have "\<lfloor>floor_mod 119.7 60\<rfloor> = 59 \<and> timestamp_label no_expo (entry_at ''a'' 119.7 1) =
        toString no_expo (Fin (of_int \<lfloor>119.7 / 60 :: real\<rfloor>)) @ '':60''"
    using timestamp_label_rounds_seconds[OF h, of no_expo] g by blast
  moreover have "toString no_expo (Fin (of_int \<lfloor>119.7 / 60 :: real\<rfloor>)) @ '':60'' = ''1:60''"
    by code_simp
  ultimately show ?thesis
    using h(2) g by simp
qed

section \<open>The active entry\<close>

text \<open>
  Claim C7. After a sequence of clicks that ends with the entry \<open>e\<close>, the stored time
  is the start of \<open>e\<close>, and an entry \<open>x\<close> is highlighted exactly when the start of
  \<open>e\<close> strictly equals the start of \<open>x\<close>. So after a click on \<open>a\<close> and then one on
  \<open>b\<close> with a different start, \<open>a\<close> is no longer highlighted.
\<close>

theorem active_entry_is_last_selected:
  "activeTimestamp (clicks player st (entries @ [e])) = Some (start e)
   \<and> is_active (clicks player st (entries @ [e])) x = strict_equal (start e) (start x)
   \<and> (start a \<noteq> start b \<longrightarrow> \<not> is_active (clicks player st (entries @ [a, b])) a)"
proof -
  have last: "activeTimestamp (clicks player st (es @ [y])) = Some (start y)" for es y
    by (simp add: clicks_append onClick_def seekToTime_def)
  have "\<not> is_active (clicks player st (entries @ [a, b])) a" if "start a \<noteq> start b"
  proof -
    have "activeTimestamp (clicks player st ((entries @ [a]) @ [b])) = Some (start b)"
      by (rule last)
    then have "is_active (clicks player st (entries @ [a, b])) a = strict_equal (start b) (start a)"
      by (simp add: is_active_def)
    then show ?thesis
      using that strict_equal_eq[of "start b" "start a"] by auto
  qed
  then show ?thesis
    using last[of entries e] by (simp add: is_active_def)
qed

theorem active_entry_is_last_selected_witness:
  "start (entry_at ''a'' 5 1) \<noteq> start (entry_at ''b'' 2 1)
   \<and> activeTimestamp (clicks True initial [entry_at ''a'' 5 1, entry_at ''b'' 2 1]) = Some (Fin 2)
   \<and> is_active (clicks True initial [entry_at ''a'' 5 1, entry_at ''b'' 2 1]) (entry_at ''b'' 2 1)
   \<and> \<not> is_active (clicks True initial [entry_at ''a'' 5 1, entry_at ''b'' 2 1]) (entry_at ''a'' 5 1)"
  using active_entry_is_last_selected[where entries = "[entry_at ''a'' 5 1]" and e = "entry_at ''b'' 2 1"
      and x = "entry_at ''b'' 2 1" and a = "entry_at ''a'' 5 1" and b = "entry_at ''b'' 2 1"
      and player = True and st = initial]
    active_entry_is_last_selected[where entries = "[]" and e = "entry_at ''b'' 2 1"
      and x = "entry_at ''b'' 2 1" and a = "entry_at ''a'' 5 1" and b = "entry_at ''b'' 2 1"
      and player = True and st = initial]
  by (simp add: entry_at_def)

section \<open>The joined fetch\<close>




section \<open>Errors through the proxy routes\<close>




end
